theory Spec2Isabelle
  imports Complex_Main "HOL-Library.Multiset"
begin

section \<open>Data model\<close>

text \<open>
  The editor keeps a library of media assets and a single-track timeline of placed clips.
  JavaScript numbers are modelled as reals; \<open>NaN\<close> and the infinities are not
  represented. The active-clip resolver and the trim gestures choose between outcomes by
  comparing computed values, so there every arithmetic operation is followed by the
  rounding of the number format, a parameter \<open>fl\<close> of the model. The total duration
  and the transport are computed in exact arithmetic. An optional field of the source
  (\<open>duration?: number\<close>) is an \<open>option\<close>, with \<open>None\<close> for \<open>undefined\<close>.

  The declarations of \<open>MediaAsset\<close> and \<open>TimelineAsset\<close> are imported by the
  components from a module of types; the fields below are the ones the components read
  and write.
\<close>

datatype MediaType = Image | Video | Audio

record MediaAsset =
  id' :: string
  type :: MediaType
  url :: string
  base64 :: "string option"
  mimeType :: "string option"
  prompt :: "string option"
  parentAssetId :: "string option"
  selectedForEdit :: "bool option"
  duration :: "real option"

record TimelineAsset = MediaAsset +
  timelineId :: string
  startTime :: real
  trimStart :: real
  trimEnd :: real

text \<open>
  \<open>Partial<TimelineAsset>\<close>: every key may be absent (\<open>None\<close>). For the optional
  fields a present key may still carry \<open>undefined\<close>, hence the nested options.
\<close>

record TimelineUpdates =
  u_id :: "string option"
  u_type :: "MediaType option"
  u_url :: "string option"
  u_base64 :: "string option option"
  u_mimeType :: "string option option"
  u_prompt :: "string option option"
  u_parentAssetId :: "string option option"
  u_selectedForEdit :: "bool option option"
  u_duration :: "real option option"
  u_timelineId :: "string option"
  u_startTime :: "real option"
  u_trimStart :: "real option"
  u_trimEnd :: "real option"

definition noUpdates :: TimelineUpdates where
  "noUpdates = \<lparr> u_id = None, u_type = None, u_url = None, u_base64 = None,
     u_mimeType = None, u_prompt = None, u_parentAssetId = None,
     u_selectedForEdit = None, u_duration = None, u_timelineId = None,
     u_startTime = None, u_trimStart = None, u_trimEnd = None \<rparr>"

section \<open>Timeline model\<close>

text \<open>
  The expression \<open>(asset.duration || 0)\<close> of the centre panel: an undefined duration
  counts as zero. The effective duration is what remains after both trims.
\<close>

definition intrinsicDuration :: "TimelineAsset \<Rightarrow> real" where
  "intrinsicDuration asset = (case duration asset of None \<Rightarrow> 0 | Some d \<Rightarrow> d)"

definition effectiveDuration :: "TimelineAsset \<Rightarrow> real" where
  "effectiveDuration asset = intrinsicDuration asset - trimStart asset - trimEnd asset"

text \<open>
  \<open>Array.prototype.sort\<close> with the comparator \<open>(a, b) => a.startTime - b.startTime\<close>
  is a stable ascending sort on \<open>startTime\<close>.
\<close>

definition sortByStartTime :: "TimelineAsset list \<Rightarrow> TimelineAsset list" where
  "sortByStartTime assets = sort_key startTime assets"

text \<open>The object spread \<open>{ ...asset, ...updates }\<close>: each key present in the updates wins.\<close>

definition mergeUpdates :: "TimelineAsset \<Rightarrow> TimelineUpdates \<Rightarrow> TimelineAsset" where
  "mergeUpdates asset updates =
     \<lparr> id' = (case u_id updates of None \<Rightarrow> id' asset | Some v \<Rightarrow> v),
       type = (case u_type updates of None \<Rightarrow> type asset | Some v \<Rightarrow> v),
       url = (case u_url updates of None \<Rightarrow> url asset | Some v \<Rightarrow> v),
       base64 = (case u_base64 updates of None \<Rightarrow> base64 asset | Some v \<Rightarrow> v),
       mimeType = (case u_mimeType updates of None \<Rightarrow> mimeType asset | Some v \<Rightarrow> v),
       prompt = (case u_prompt updates of None \<Rightarrow> prompt asset | Some v \<Rightarrow> v),
       parentAssetId =
         (case u_parentAssetId updates of None \<Rightarrow> parentAssetId asset | Some v \<Rightarrow> v),
       selectedForEdit =
         (case u_selectedForEdit updates of None \<Rightarrow> selectedForEdit asset | Some v \<Rightarrow> v),
       duration = (case u_duration updates of None \<Rightarrow> duration asset | Some v \<Rightarrow> v),
       timelineId = (case u_timelineId updates of None \<Rightarrow> timelineId asset | Some v \<Rightarrow> v),
       startTime = (case u_startTime updates of None \<Rightarrow> startTime asset | Some v \<Rightarrow> v),
       trimStart = (case u_trimStart updates of None \<Rightarrow> trimStart asset | Some v \<Rightarrow> v),
       trimEnd = (case u_trimEnd updates of None \<Rightarrow> trimEnd asset | Some v \<Rightarrow> v) \<rparr>"

text \<open>
  The three state updaters passed to \<open>setTimelineAssets\<close> in \<open>App.tsx\<close>, as
  functions of the previous collection: the one in \<open>handleDropOnTimeline\<close> (append,
  then sort), \<open>handleUpdateTimelineAsset\<close> (map, then sort) and
  \<open>handleRemoveFromTimeline\<close> (filter).
\<close>

definition placeOnTimeline :: "TimelineAsset \<Rightarrow> TimelineAsset list \<Rightarrow> TimelineAsset list" where
  "placeOnTimeline newTimelineAsset prev = sortByStartTime (prev @ [newTimelineAsset])"

definition handleUpdateTimelineAsset ::
  "string \<Rightarrow> TimelineUpdates \<Rightarrow> TimelineAsset list \<Rightarrow> TimelineAsset list" where
  "handleUpdateTimelineAsset tid updates prev =
     sortByStartTime
       (map (\<lambda>asset. if timelineId asset = tid then mergeUpdates asset updates else asset) prev)"

definition handleRemoveFromTimeline :: "string \<Rightarrow> TimelineAsset list \<Rightarrow> TimelineAsset list" where
  "handleRemoveFromTimeline tid prev = filter (\<lambda>a. timelineId a \<noteq> tid) prev"

text \<open>
  \<open>totalDuration\<close> of the centre panel: \<open>reduce\<close> with \<open>Math.max\<close> from 0 over
  the clips' end times, floored at 15 seconds.
\<close>

definition clipEnd :: "TimelineAsset \<Rightarrow> real" where
  "clipEnd asset = startTime asset + effectiveDuration asset"

definition totalDuration :: "TimelineAsset list \<Rightarrow> real" where
  "totalDuration timelineAssets =
     max 15 (foldl (\<lambda>mx asset. max mx (clipEnd asset)) 0 timelineAssets)"

section \<open>Number arithmetic\<close>

text \<open>
  An arithmetic operation of the source yields the exact result rounded to the number
  format. The rounding \<open>fl\<close> is a parameter: in the browser it is rounding to the
  nearest binary64 value, and with the identity the operations are the exact ones.
\<close>

definition jsAdd :: "(real \<Rightarrow> real) \<Rightarrow> real \<Rightarrow> real \<Rightarrow> real" where
  "jsAdd fl x y = fl (x + y)"

definition jsSub :: "(real \<Rightarrow> real) \<Rightarrow> real \<Rightarrow> real \<Rightarrow> real" where
  "jsSub fl x y = fl (x - y)"

definition jsMul :: "(real \<Rightarrow> real) \<Rightarrow> real \<Rightarrow> real \<Rightarrow> real" where
  "jsMul fl x y = fl (x * y)"

definition jsDiv :: "(real \<Rightarrow> real) \<Rightarrow> real \<Rightarrow> real \<Rightarrow> real" where
  "jsDiv fl x y = fl (x / y)"

text \<open>
  The expression \<open>(asset.duration || 0) - asset.trimStart - asset.trimEnd\<close> as the
  resolver and the clip item compute it: two subtractions, each rounded.
\<close>

definition roundedEffectiveDuration :: "(real \<Rightarrow> real) \<Rightarrow> TimelineAsset \<Rightarrow> real" where
  "roundedEffectiveDuration fl asset =
     jsSub fl (jsSub fl (intrinsicDuration asset) (trimStart asset)) (trimEnd asset)"

section \<open>Active-clip resolution and playback synchronisation\<close>

text \<open>
  The preview is \<open>MediaAsset | TimelineAsset | null\<close>; the source tells the two kinds
  apart by the presence of the key \<open>timelineId\<close>. \<open>None\<close> is \<open>null\<close>.
\<close>

datatype Asset = LibraryAsset MediaAsset | PlacedAsset TimelineAsset

fun assetType :: "Asset \<Rightarrow> MediaType" where
  "assetType (LibraryAsset a) = type a"
| "assetType (PlacedAsset a) = type a"

text \<open>
  The predicate given to \<open>timelineAssets.find\<close> in the memo \<open>activeAsset\<close>, and
  the memo itself. The end of the clip's range is the rounded sum of its start and its
  rounded effective duration.
\<close>

definition playingAt :: "(real \<Rightarrow> real) \<Rightarrow> real \<Rightarrow> TimelineAsset \<Rightarrow> bool" where
  "playingAt fl currentTime asset =
     (currentTime \<ge> startTime asset
      \<and> currentTime < jsAdd fl (startTime asset) (roundedEffectiveDuration fl asset))"

definition activeAsset ::
  "(real \<Rightarrow> real) \<Rightarrow> Asset option \<Rightarrow> TimelineAsset list \<Rightarrow> real \<Rightarrow> Asset option" where
  "activeAsset fl previewAsset timelineAssets currentTime =
     (case previewAsset of
        Some (PlacedAsset a) \<Rightarrow> previewAsset
      | _ \<Rightarrow>
          (case find (playingAt fl currentTime) timelineAssets of
             Some playingAsset \<Rightarrow> Some (PlacedAsset playingAsset)
           | None \<Rightarrow> previewAsset))"

text \<open>
  The constant \<open>effectiveTime\<close> of the synchronising effect:
  \<open>currentTime - timelineAsset.startTime + timelineAsset.trimStart\<close>.
\<close>

definition effectiveTime :: "(real \<Rightarrow> real) \<Rightarrow> real \<Rightarrow> TimelineAsset \<Rightarrow> real" where
  "effectiveTime fl currentTime timelineAsset =
     jsAdd fl (jsSub fl currentTime (startTime timelineAsset)) (trimStart timelineAsset)"

text \<open>
  The position the synchronising effect computes for the output element: none without an
  active asset, none for an image (it has no element), none while paused, and none for a
  library asset.
\<close>

definition syncOffset :: "(real \<Rightarrow> real) \<Rightarrow> Asset option \<Rightarrow> bool \<Rightarrow> real \<Rightarrow> real option" where
  "syncOffset fl active playing currentTime =
     (case active of
        None \<Rightarrow> None
      | Some a \<Rightarrow>
          if assetType a = Image then None
          else if playing then
            (case a of
               PlacedAsset timelineAsset \<Rightarrow> Some (effectiveTime fl currentTime timelineAsset)
             | LibraryAsset _ \<Rightarrow> None)
          else None)"

section \<open>Transport\<close>

record Transport =
  currentTime :: real
  isPlaying :: bool


definition PIXELS_PER_SECOND :: real where
  "PIXELS_PER_SECOND = 50"

text \<open>
  One animation frame. The updater first tests the previous position against the total
  duration; only when the test fails does it advance by a sixtieth of a second.
\<close>

definition tick :: "real \<Rightarrow> Transport \<Rightarrow> Transport" where
  "tick totalDur st =
     (if currentTime st \<ge> totalDur then \<lparr> currentTime = 0, isPlaying = False \<rparr>
      else st \<lparr> currentTime := currentTime st + 1 / 60 \<rparr>)"

text \<open>Frames are requested only while the transport is playing.\<close>

definition clockTick :: "real \<Rightarrow> Transport \<Rightarrow> Transport" where
  "clockTick totalDur st = (if isPlaying st then tick totalDur st else st)"







section \<open>Trim gestures\<close>

datatype Side = LeftSide | RightSide

record ResizeState =
  side :: Side
  startX :: real

text \<open>
  The body of the pointer-move handler of a trim drag once the time delta is known: the
  call of \<open>onUpdate\<close> it makes, if any. Sums and differences are rounded; \<open>Math.max\<close>
  is exact; the literal \<open>0.1\<close> is the rounded tenth.
\<close>

definition trimDrag ::
  "(real \<Rightarrow> real) \<Rightarrow> Side \<Rightarrow> TimelineAsset \<Rightarrow> real \<Rightarrow> (string \<times> TimelineUpdates) option" where
  "trimDrag fl sd asset deltaTime =
     (case sd of
        LeftSide \<Rightarrow>
          (let newTrimStart = max 0 (jsAdd fl (trimStart asset) deltaTime);
               newStartTime = jsAdd fl (startTime asset) deltaTime
           in if newStartTime \<ge> 0
                 \<and> jsSub fl (jsSub fl (intrinsicDuration asset) newTrimStart) (trimEnd asset)
                     > fl (1 / 10)
              then Some (timelineId asset,
                     noUpdates \<lparr> u_trimStart := Some newTrimStart,
                                 u_startTime := Some newStartTime \<rparr>)
              else None)
      | RightSide \<Rightarrow>
          (let newTrimEnd = max 0 (jsSub fl (trimEnd asset) deltaTime)
           in if jsSub fl (jsSub fl (intrinsicDuration asset) (trimStart asset)) newTrimEnd
                   > fl (1 / 10)
              then Some (timelineId asset, noUpdates \<lparr> u_trimEnd := Some newTrimEnd \<rparr>)
              else None))"

definition handleMouseMove ::
  "(real \<Rightarrow> real) \<Rightarrow> ResizeState \<Rightarrow> real \<Rightarrow> TimelineAsset \<Rightarrow> real
     \<Rightarrow> (string \<times> TimelineUpdates) option" where
  "handleMouseMove fl resizeState zoom asset clientX =
     (let deltaX = jsSub fl clientX (startX resizeState);
          deltaTime = jsDiv fl deltaX (jsMul fl PIXELS_PER_SECOND zoom)
      in trimDrag fl (side resizeState) asset deltaTime)"

text \<open>The timeline after one frame of a trim drag.\<close>

definition trimFrame ::
  "(real \<Rightarrow> real) \<Rightarrow> Side \<Rightarrow> TimelineAsset \<Rightarrow> real \<Rightarrow> TimelineAsset list
     \<Rightarrow> TimelineAsset list" where
  "trimFrame fl sd asset deltaTime prev =
     (case trimDrag fl sd asset deltaTime of
        None \<Rightarrow> prev
      | Some (tid, updates) \<Rightarrow> handleUpdateTimelineAsset tid updates prev)"

section \<open>Drop handler\<close>

text \<open>
  \<open>JSON.parse\<close> belongs to the platform and is a parameter of the handler: it either
  throws or returns a JSON value. An object is the list of its own properties.
\<close>

datatype JsonValue =
    JNull
  | JBool bool
  | JNumber real
  | JString string
  | JArray "JsonValue list"
  | JObject "(string \<times> JsonValue) list"

datatype JsError = SyntaxError | TypeError | Error string

text \<open>
  Reading a property while destructuring: \<open>None\<close> is \<open>undefined\<close>. Only objects carry
  the keys \<open>type\<close> and \<open>assetId\<close>; destructuring \<open>null\<close> throws and is handled by
  the caller.
\<close>

fun getProp :: "JsonValue \<Rightarrow> string \<Rightarrow> JsonValue option" where
  "getProp (JObject props) key = map_of props key"
| "getProp _ key = None"

text \<open>
  What the media element does after \<open>load()\<close>: it fires \<open>loadedmetadata\<close> (and the
  handler reads \<open>element.duration\<close>), it fires \<open>error\<close>, or it fires neither.
\<close>

datatype MediaLoad = LoadedMetadata "real option" | LoadError | NoEvent

datatype 'a Promise = Resolved 'a | Rejected JsError | NeverSettled

definition getMediaDuration ::
  "(string \<Rightarrow> MediaLoad) \<Rightarrow> string \<Rightarrow> MediaType \<Rightarrow> real option Promise" where
  "getMediaDuration loadMedia u t =
     (if t = Image then Resolved (Some 5)
      else (case loadMedia u of
              LoadedMetadata d \<Rightarrow> Resolved d
            | LoadError \<Rightarrow> Rejected (Error (''Failed to load media metadata for '' @ u))
            | NoEvent \<Rightarrow> NeverSettled))"

record AppState =
  libraryAssets :: "MediaAsset list"
  timelineAssets :: "TimelineAsset list"
  consoleErrors :: "JsError list"

text \<open>
  How a run of the asynchronous handler ends: it returns, an exception leaves it, or it
  stays suspended at an \<open>await\<close> for ever.
\<close>

datatype Outcome = Returned | Escaped JsError | Suspended

definition newTimelineAsset :: "MediaAsset \<Rightarrow> string \<Rightarrow> real \<Rightarrow> real \<Rightarrow> TimelineAsset" where
  "newTimelineAsset assetToAdd uuid dropTime d =
     \<lparr> id' = id' assetToAdd, type = type assetToAdd, url = url assetToAdd,
       base64 = base64 assetToAdd, mimeType = mimeType assetToAdd,
       prompt = prompt assetToAdd, parentAssetId = parentAssetId assetToAdd,
       selectedForEdit = selectedForEdit assetToAdd, duration = Some d,
       timelineId = uuid, startTime = dropTime, trimStart = 0, trimEnd = 0 \<rparr>"

definition idIs :: "JsonValue option \<Rightarrow> MediaAsset \<Rightarrow> bool" where
  "idIs assetId a = (assetId = Some (JString (id' a)))"

text \<open>
  The part of the \<open>try\<close> block that runs once \<open>assetToAdd\<close> is found. \<open>uuid\<close>
  is the value \<open>crypto.randomUUID()\<close> returns for this drop. A state update made
  before a throw is kept.
\<close>

definition dropFound ::
  "(string \<Rightarrow> MediaLoad) \<Rightarrow> string \<Rightarrow> real \<Rightarrow> JsonValue option \<Rightarrow> MediaAsset
     \<Rightarrow> AppState \<Rightarrow> Outcome \<times> AppState" where
  "dropFound loadMedia uuid dropTime assetId assetToAdd st =
     (case duration assetToAdd of
        Some d \<Rightarrow>
          (Returned,
           st \<lparr> timelineAssets :=
                  placeOnTimeline (newTimelineAsset assetToAdd uuid dropTime d)
                    (timelineAssets st) \<rparr>)
      | None \<Rightarrow>
          (case getMediaDuration loadMedia (url assetToAdd) (type assetToAdd) of
             NeverSettled \<Rightarrow> (Suspended, st)
           | Rejected e \<Rightarrow> (Escaped e, st)
           | Resolved dur \<Rightarrow>
               (let st1 = st \<lparr> libraryAssets :=
                            map (\<lambda>a. if idIs assetId a then a \<lparr> duration := dur \<rparr> else a)
                              (libraryAssets st) \<rparr>
                in (case dur of
                      None \<Rightarrow> (Escaped (Error ''Could not determine asset duration.''), st1)
                    | Some d \<Rightarrow>
                        (Returned,
                         st1 \<lparr> timelineAssets :=
                                 placeOnTimeline (newTimelineAsset assetToAdd uuid dropTime d)
                                   (timelineAssets st1) \<rparr>)))))"

text \<open>
  The \<open>try\<close> block: parse, destructure (which throws a \<open>TypeError\<close> on \<open>null\<close>),
  and act on a payload of type \<open>libraryAsset\<close> only.
\<close>

definition dropTry ::
  "(string \<Rightarrow> JsError + JsonValue) \<Rightarrow> (string \<Rightarrow> MediaLoad) \<Rightarrow> string
     \<Rightarrow> string \<Rightarrow> real \<Rightarrow> AppState \<Rightarrow> Outcome \<times> AppState" where
  "dropTry JSON_parse loadMedia uuid data dropTime st =
     (case JSON_parse data of
        Inl e \<Rightarrow> (Escaped e, st)
      | Inr parsed \<Rightarrow>
          if parsed = JNull then (Escaped TypeError, st)
          else
            (let type_v = getProp parsed ''type''; assetId = getProp parsed ''assetId''
             in if type_v = Some (JString ''libraryAsset'') then
                  (case find (idIs assetId) (libraryAssets st) of
                     None \<Rightarrow> (Returned, st)
                   | Some assetToAdd \<Rightarrow> dropFound loadMedia uuid dropTime assetId assetToAdd st)
                else (Returned, st)))"

text \<open>The \<open>catch\<close> clause logs whatever the block threw and returns.\<close>

definition handleDropOnTimeline ::
  "(string \<Rightarrow> JsError + JsonValue) \<Rightarrow> (string \<Rightarrow> MediaLoad) \<Rightarrow> string
     \<Rightarrow> string \<Rightarrow> real \<Rightarrow> AppState \<Rightarrow> Outcome \<times> AppState" where
  "handleDropOnTimeline JSON_parse loadMedia uuid data dropTime st =
     (case dropTry JSON_parse loadMedia uuid data dropTime st of
        (Escaped e, st') \<Rightarrow> (Returned, st' \<lparr> consoleErrors := consoleErrors st' @ [e] \<rparr>)
      | r \<Rightarrow> r)"

text \<open>
  A payload describes a known library asset when it is an object whose \<open>type\<close> is the
  string \<open>libraryAsset\<close> and whose \<open>assetId\<close> is the identifier of an asset of the
  library.
\<close>

definition describesKnownLibraryAsset :: "JsonValue \<Rightarrow> MediaAsset list \<Rightarrow> bool" where
  "describesKnownLibraryAsset v library =
     (getProp v ''type'' = Some (JString ''libraryAsset'')
      \<and> list_ex (\<lambda>a. getProp v ''assetId'' = Some (JString (id' a))) library)"


section \<open>Sample data\<close>

definition sampleAsset :: "string \<Rightarrow> MediaType \<Rightarrow> real option \<Rightarrow> MediaAsset" where
  "sampleAsset i t d =
     \<lparr> id' = i, type = t, url = ''blob:'' @ i, base64 = None, mimeType = None,
       prompt = None, parentAssetId = None, selectedForEdit = None, duration = d \<rparr>"

definition sampleClip :: "string \<Rightarrow> real \<Rightarrow> real \<Rightarrow> real \<Rightarrow> real \<Rightarrow> TimelineAsset" where
  "sampleClip tid start d ts te =
     \<lparr> id' = ''a1'', type = Video, url = ''blob:a1'', base64 = None, mimeType = None,
       prompt = None, parentAssetId = None, selectedForEdit = None, duration = Some d,
       timelineId = tid, startTime = start, trimStart = ts, trimEnd = te \<rparr>"

text \<open>
  The results of \<open>JSON.parse\<close> on the payloads of the examples: the text of a library
  drag, the text of a timeline drag, the literal \<open>null\<close>, and text that is not JSON.
\<close>

definition libraryPayload :: string where
  \<open>libraryPayload = ''{"type":"libraryAsset","assetId":"a1"}''\<close>

definition timelinePayload :: string where
  \<open>timelinePayload = ''{"type":"timelineAsset","assetId":"a1","timelineId":"t1"}''\<close>

definition sampleParse :: "string \<Rightarrow> JsError + JsonValue" where
  "sampleParse data =
     (if data = libraryPayload
      then Inr (JObject [(''type'', JString ''libraryAsset''), (''assetId'', JString ''a1'')])
      else if data = timelinePayload
      then Inr (JObject [(''type'', JString ''timelineAsset''), (''assetId'', JString ''a1''),
                         (''timelineId'', JString ''t1'')])
      else if data = ''null'' then Inr JNull
      else Inl SyntaxError)"

definition sampleState :: "MediaAsset list \<Rightarrow> TimelineAsset list \<Rightarrow> AppState" where
  "sampleState library clips =
     \<lparr> libraryAssets = library, timelineAssets = clips, consoleErrors = [] \<rparr>"

text \<open>
  Binary64 values of the examples: the numbers nearest to 0.1, 14.9, 0.4 and 1.4.
\<close>

definition double_0_1 :: real where
  "double_0_1 = 3602879701896397 / 36028797018963968"

definition double_14_9 :: real where
  "double_14_9 = 8387954305977549 / 562949953421312"

definition double_0_4 :: real where
  "double_0_4 = 3602879701896397 / 9007199254740992"

definition double_1_4 :: real where
  "double_1_4 = 3152519739159347 / 2251799813685248"

text \<open>
  Rounding to binary64 on the operations of the examples. Three exact results are not
  binary64 values: the sum of the values for 0.1 and 14.9 rounds to 15, the sum of the
  value for 0.4 and 1 rounds to the value for 1.4, and the tenth rounds to the value for
  0.1. Every other result in the examples is a binary64 value and stays as it is.
\<close>

definition sampleRound :: "real \<Rightarrow> real" where
  "sampleRound x =
     (if x = double_0_1 + double_14_9 then 15
      else if x = double_0_4 + 1 then double_1_4
      else if x = 1 / 10 then double_0_1
      else x)"

text \<open>A media element whose metadata fails to load.\<close>

definition failingLoad :: "string \<Rightarrow> MediaLoad" where
  "failingLoad u = LoadError"

section \<open>Total duration\<close>

lemma foldl_max_clipEnd:
  "foldl (\<lambda>mx asset. max mx (clipEnd asset)) m xs = Max (insert m (clipEnd ` set xs))"
proof (induction xs arbitrary: m)
  case Nil
  show ?case by simp
next
  case (Cons x xs)
  have "Max (insert (max m (clipEnd x)) (clipEnd ` set xs))
      = Max (insert m (insert (clipEnd x) (clipEnd ` set xs)))"
  proof (cases "xs = []")
    case True
    then show ?thesis by (simp add: max.commute)
  next
    case False
    then have ne: "clipEnd ` set xs \<noteq> {}" by simp
    have fin: "finite (clipEnd ` set xs)" by simp
    show ?thesis
      using ne fin by (simp add: max.assoc)
  qed
  with Cons show ?case by simp
qed

lemma totalDuration_Max:
  "totalDuration xs = Max (insert 15 (clipEnd ` set xs))"
proof -
  have "totalDuration xs = max 15 (Max (insert 0 (clipEnd ` set xs)))"
    by (simp add: totalDuration_def foldl_max_clipEnd)
  also have "\<dots> = Max (insert 15 (insert 0 (clipEnd ` set xs)))"
    by simp
  also have "\<dots> = Max (insert 0 (insert 15 (clipEnd ` set xs)))"
    by (simp add: insert_commute)
  also have "\<dots> = max 0 (Max (insert 15 (clipEnd ` set xs)))"
    by simp
  also have "\<dots> = Max (insert 15 (clipEnd ` set xs))"
  proof -
    have "(15::real) \<le> Max (insert 15 (clipEnd ` set xs))"
      by (rule Max_ge) simp_all
    then have "(0::real) \<le> Max (insert 15 (clipEnd ` set xs))" by linarith
    then show ?thesis by (simp only: max_absorb2)
  qed
  finally show ?thesis .
qed

lemma totalDuration_ge_15: "15 \<le> totalDuration xs"
  by (simp add: totalDuration_def)

text \<open>
  Claim C5. For every clip collection the total duration is the maximum of the 15-second
  floor and the clips' end times \<open>startTime + effectiveDuration\<close>; so it is at least 15,
  exactly 15 on the empty timeline, and at least the end time of every clip.
\<close>

theorem totalDuration_spec:
  "totalDuration clips
     = Max (insert 15 ((\<lambda>c. startTime c + effectiveDuration c) ` set clips))
   \<and> 15 \<le> totalDuration clips
   \<and> totalDuration [] = 15
   \<and> (\<forall>c \<in> set clips. startTime c + effectiveDuration c \<le> totalDuration clips)"
proof -
  have eq: "(\<lambda>c. startTime c + effectiveDuration c) = clipEnd"
    by (rule ext) (simp add: clipEnd_def)
  have a: "totalDuration clips = Max (insert 15 (clipEnd ` set clips))"
    by (rule totalDuration_Max)
  have b: "15 \<le> totalDuration clips" by (rule totalDuration_ge_15)
  have c: "totalDuration [] = 15" by (simp add: totalDuration_def)
  have d: "\<forall>c \<in> set clips. clipEnd c \<le> totalDuration clips"
  proof
    fix c assume "c \<in> set clips"
    then have "clipEnd c \<in> insert 15 (clipEnd ` set clips)" by simp
    then have "clipEnd c \<le> Max (insert 15 (clipEnd ` set clips))"
      by (intro Max_ge) simp_all
    then show "clipEnd c \<le> totalDuration clips" by (simp add: a)
  qed
  from d have d': "\<forall>c \<in> set clips. startTime c + effectiveDuration c \<le> totalDuration clips"
    by (simp add: clipEnd_def)
  from a have a': "totalDuration clips
     = Max (insert 15 ((\<lambda>c. startTime c + effectiveDuration c) ` set clips))"
    by (simp only: eq)
  show ?thesis using a' b c d' by blast
qed

theorem totalDuration_spec_witness:
  "sampleClip ''t1'' 12 10 0 0 \<in> set [sampleClip ''t1'' 12 10 0 0]
   \<and> startTime (sampleClip ''t1'' 12 10 0 0) + effectiveDuration (sampleClip ''t1'' 12 10 0 0)
       \<le> totalDuration [sampleClip ''t1'' 12 10 0 0]
   \<and> totalDuration [sampleClip ''t1'' 12 10 0 0] = 22"
  using totalDuration_spec [of "[sampleClip ''t1'' 12 10 0 0]"]
  by (simp add: sampleClip_def effectiveDuration_def intrinsicDuration_def)

section \<open>Active-clip resolution\<close>

lemma find_first:
  assumes "i < length xs" "P (xs ! i)" "\<forall>j<i. \<not> P (xs ! j)"
  shows "find P xs = Some (xs ! i)"
  using assms by (auto simp: find_Some_iff)

lemma activeAsset_first:
  assumes nosel: "\<forall>a. previewAsset \<noteq> Some (PlacedAsset a)"
    and i: "i < length clips"
    and hit: "playingAt fl t (clips ! i)"
    and first: "\<forall>j<i. \<not> playingAt fl t (clips ! j)"
  shows "activeAsset fl previewAsset clips t = Some (PlacedAsset (clips ! i))"
proof -
  have f: "find (playingAt fl t) clips = Some (clips ! i)"
    using i hit first by (rule find_first)
  show ?thesis
  proof (cases previewAsset)
    case None
    then show ?thesis by (simp add: activeAsset_def f)
  next
    case (Some p)
    with nosel obtain m where "p = LibraryAsset m" by (cases p) auto
    with Some show ?thesis by (simp add: activeAsset_def f)
  qed
qed

text \<open>
  Claim C1. The sums and differences of the claim are the ones the code computes, each
  rounded by \<open>fl\<close>; the statement holds for every rounding. When the preview selection
  is not a timeline clip, the resolver returns the first clip of the list, in list order,
  whose range \<open>startTime \<le> t < startTime + effectiveDuration\<close> holds the playhead
  \<open>t\<close>, and the in-source offset of that clip is \<open>t - startTime + trimStart\<close>; the
  synchronising effect computes exactly that offset while playing a video or audio clip.
  With clips at 0 and 5, each of effective duration 5, the playhead at 7 resolves to the
  second clip at offset 2, for every rounding that leaves 2, 5 and 10 as they are. The
  statement holds for every clip list; sortedness is not needed.
\<close>

theorem activeAsset_first_match:
  "((\<forall>a. previewAsset \<noteq> Some (PlacedAsset a))
     \<and> i < length clips
     \<and> startTime (clips ! i) \<le> t
     \<and> t < jsAdd fl (startTime (clips ! i)) (roundedEffectiveDuration fl (clips ! i))
     \<and> (\<forall>j<i. \<not> (startTime (clips ! j) \<le> t
                    \<and> t < jsAdd fl (startTime (clips ! j))
                             (roundedEffectiveDuration fl (clips ! j))))
    \<longrightarrow> activeAsset fl previewAsset clips t = Some (PlacedAsset (clips ! i))
        \<and> effectiveTime fl t (clips ! i)
            = jsAdd fl (jsSub fl t (startTime (clips ! i))) (trimStart (clips ! i))
        \<and> (type (clips ! i) \<noteq> Image \<longrightarrow>
             syncOffset fl (activeAsset fl previewAsset clips t) True t
               = Some (jsAdd fl (jsSub fl t (startTime (clips ! i))) (trimStart (clips ! i)))))
   \<and> (fl 2 = 2 \<and> fl 5 = 5 \<and> fl 10 = 10
    \<longrightarrow> roundedEffectiveDuration fl (sampleClip ''t1'' 0 5 0 0) = 5
        \<and> roundedEffectiveDuration fl (sampleClip ''t2'' 5 5 0 0) = 5
        \<and> activeAsset fl None [sampleClip ''t1'' 0 5 0 0, sampleClip ''t2'' 5 5 0 0] 7
            = Some (PlacedAsset (sampleClip ''t2'' 5 5 0 0))
        \<and> effectiveTime fl 7 (sampleClip ''t2'' 5 5 0 0) = 2)"
proof -
  have general: "activeAsset fl previewAsset clips t = Some (PlacedAsset (clips ! i))
        \<and> effectiveTime fl t (clips ! i)
            = jsAdd fl (jsSub fl t (startTime (clips ! i))) (trimStart (clips ! i))
        \<and> (type (clips ! i) \<noteq> Image \<longrightarrow>
             syncOffset fl (activeAsset fl previewAsset clips t) True t
               = Some (jsAdd fl (jsSub fl t (startTime (clips ! i))) (trimStart (clips ! i))))"
    if nosel: "\<forall>a. previewAsset \<noteq> Some (PlacedAsset a)"
      and i: "i < length clips"
      and hit: "startTime (clips ! i) \<le> t
        \<and> t < jsAdd fl (startTime (clips ! i)) (roundedEffectiveDuration fl (clips ! i))"
      and first: "\<forall>j<i. \<not> (startTime (clips ! j) \<le> t
                    \<and> t < jsAdd fl (startTime (clips ! j))
                             (roundedEffectiveDuration fl (clips ! j)))"
  proof -
    have a: "activeAsset fl previewAsset clips t = Some (PlacedAsset (clips ! i))"
      using nosel i hit first by (intro activeAsset_first) (simp_all add: playingAt_def)
    show ?thesis by (simp add: a effectiveTime_def syncOffset_def)
  qed
  have scenario: "roundedEffectiveDuration fl (sampleClip ''t1'' 0 5 0 0) = 5
        \<and> roundedEffectiveDuration fl (sampleClip ''t2'' 5 5 0 0) = 5
        \<and> activeAsset fl None [sampleClip ''t1'' 0 5 0 0, sampleClip ''t2'' 5 5 0 0] 7
            = Some (PlacedAsset (sampleClip ''t2'' 5 5 0 0))
        \<and> effectiveTime fl 7 (sampleClip ''t2'' 5 5 0 0) = 2"
    if ex: "fl 2 = 2 \<and> fl 5 = 5 \<and> fl 10 = 10"
  proof -
    have d1: "roundedEffectiveDuration fl (sampleClip ''t1'' 0 5 0 0) = 5"
      using ex by (simp add: roundedEffectiveDuration_def jsSub_def intrinsicDuration_def
          sampleClip_def)
    have d2: "roundedEffectiveDuration fl (sampleClip ''t2'' 5 5 0 0) = 5"
      using ex by (simp add: roundedEffectiveDuration_def jsSub_def intrinsicDuration_def
          sampleClip_def)
    have p1: "\<not> playingAt fl 7 (sampleClip ''t1'' 0 5 0 0)"
      using ex by (simp add: playingAt_def d1 jsAdd_def) (simp add: sampleClip_def)
    have p2: "playingAt fl 7 (sampleClip ''t2'' 5 5 0 0)"
      using ex by (simp add: playingAt_def d2 jsAdd_def) (simp add: sampleClip_def)
    have act: "activeAsset fl None [sampleClip ''t1'' 0 5 0 0, sampleClip ''t2'' 5 5 0 0] 7
            = Some (PlacedAsset (sampleClip ''t2'' 5 5 0 0))"
      by (simp add: activeAsset_def p1 p2)
    have off: "effectiveTime fl 7 (sampleClip ''t2'' 5 5 0 0) = 2"
      using ex by (simp add: effectiveTime_def jsAdd_def jsSub_def sampleClip_def)
    from d1 d2 act off show ?thesis by blast
  qed
  from general scenario show ?thesis by blast
qed

text \<open>
  The witness runs two roundings. With the binary64 rounding of the examples, a clip from
  the value for 0.1 with duration the value for 14.9 ends at the rounded sum 15, so the
  playhead at 15 is outside it and the resolver returns the second clip. With the identity
  the scenario of the claim is computed.
\<close>

theorem activeAsset_first_match_witness:
  "(\<forall>a. (None :: Asset option) \<noteq> Some (PlacedAsset a))
   \<and> (1::nat) < length [sampleClip ''t1'' double_0_1 double_14_9 0 0, sampleClip ''t2'' 10 10 0 0]
   \<and> jsAdd sampleRound (startTime (sampleClip ''t1'' double_0_1 double_14_9 0 0))
        (roundedEffectiveDuration sampleRound (sampleClip ''t1'' double_0_1 double_14_9 0 0)) = 15
   \<and> startTime (sampleClip ''t2'' 10 10 0 0) \<le> 15
   \<and> 15 < jsAdd sampleRound (startTime (sampleClip ''t2'' 10 10 0 0))
             (roundedEffectiveDuration sampleRound (sampleClip ''t2'' 10 10 0 0))
   \<and> type (sampleClip ''t2'' 10 10 0 0) \<noteq> Image
   \<and> activeAsset sampleRound None
        [sampleClip ''t1'' double_0_1 double_14_9 0 0, sampleClip ''t2'' 10 10 0 0] 15
       = Some (PlacedAsset (sampleClip ''t2'' 10 10 0 0))
   \<and> syncOffset sampleRound
        (activeAsset sampleRound None
           [sampleClip ''t1'' double_0_1 double_14_9 0 0, sampleClip ''t2'' 10 10 0 0] 15)
        True 15
       = Some 5
   \<and> id (2::real) = 2 \<and> id (5::real) = 5 \<and> id (10::real) = 10
   \<and> activeAsset id None [sampleClip ''t1'' 0 5 0 0, sampleClip ''t2'' 5 5 0 0] 7
       = Some (PlacedAsset (sampleClip ''t2'' 5 5 0 0))
   \<and> effectiveTime id 7 (sampleClip ''t2'' 5 5 0 0) = 2"
proof -
  have e1: "roundedEffectiveDuration sampleRound (sampleClip ''t1'' double_0_1 double_14_9 0 0)
      = double_14_9"
    by (simp add: roundedEffectiveDuration_def jsSub_def intrinsicDuration_def sampleClip_def
        sampleRound_def double_0_1_def double_14_9_def double_0_4_def)
  have s1: "jsAdd sampleRound (startTime (sampleClip ''t1'' double_0_1 double_14_9 0 0))
        (roundedEffectiveDuration sampleRound (sampleClip ''t1'' double_0_1 double_14_9 0 0)) = 15"
    by (simp add: e1 jsAdd_def) (simp add: sampleClip_def sampleRound_def)
  have e2: "roundedEffectiveDuration sampleRound (sampleClip ''t2'' 10 10 0 0) = 10"
    by (simp add: roundedEffectiveDuration_def jsSub_def intrinsicDuration_def sampleClip_def
        sampleRound_def double_0_1_def double_14_9_def double_0_4_def)
  have s2: "jsAdd sampleRound (startTime (sampleClip ''t2'' 10 10 0 0))
        (roundedEffectiveDuration sampleRound (sampleClip ''t2'' 10 10 0 0)) = 20"
    by (simp add: e2 jsAdd_def)
       (simp add: sampleClip_def sampleRound_def double_0_1_def double_14_9_def double_0_4_def)
  have st: "startTime (sampleClip ''t1'' double_0_1 double_14_9 0 0) = double_0_1
      \<and> startTime (sampleClip ''t2'' 10 10 0 0) = 10
      \<and> trimStart (sampleClip ''t2'' 10 10 0 0) = 0
      \<and> type (sampleClip ''t2'' 10 10 0 0) = Video"
    by (simp add: sampleClip_def)
  have r5: "jsAdd sampleRound (jsSub sampleRound 15 10) 0 = 5"
    by (simp add: jsAdd_def jsSub_def sampleRound_def double_0_1_def double_14_9_def
        double_0_4_def)
  from activeAsset_first_match [where fl = sampleRound and previewAsset = None and i = 1
      and clips = "[sampleClip ''t1'' double_0_1 double_14_9 0 0, sampleClip ''t2'' 10 10 0 0]"
      and t = 15]
    activeAsset_first_match [where fl = id]
    s1 s2 st r5
  show ?thesis by (simp add: syncOffset_def)
qed

section \<open>Transport\<close>

text \<open>
  Claim C2 as stated fails: from a sixtieth of a second before the end of the empty
  timeline (total duration 15) one tick leaves the transport running with the playhead at
  15, not stopped at 0.
\<close>

theorem tick_end_counterexample:
  "\<not> (isPlaying (clockTick (totalDuration [])
            \<lparr> currentTime = totalDuration [] - 1 / 60, isPlaying = True \<rparr>) = False
        \<and> currentTime (clockTick (totalDuration [])
            \<lparr> currentTime = totalDuration [] - 1 / 60, isPlaying = True \<rparr>) = 0)
   \<and> clockTick (totalDuration [])
         \<lparr> currentTime = totalDuration [] - 1 / 60, isPlaying = True \<rparr>
       = \<lparr> currentTime = 15, isPlaying = True \<rparr>"
  by (simp add: clockTick_def tick_def totalDuration_def)

text \<open>
  Claim C2, amended. A tick that finds the playhead at or beyond the total duration
  \<open>D\<close> stops the transport and resets the playhead to 0; a tick that finds it before
  \<open>D\<close> advances it by 1/60 and leaves the run state as it is, also when the advanced
  position reaches \<open>D\<close>. From \<open>D - 1/60\<close> while running, the first tick moves the
  playhead to \<open>D\<close> and the transport keeps running; the second tick stops it at 0.
\<close>

theorem tick_boundary:
  "(currentTime st \<ge> D \<longrightarrow> tick D st = \<lparr> currentTime = 0, isPlaying = False \<rparr>)
   \<and> (currentTime st < D \<longrightarrow> tick D st = st \<lparr> currentTime := currentTime st + 1 / 60 \<rparr>)
   \<and> (isPlaying st \<and> currentTime st = D - 1 / 60 \<longrightarrow>
         clockTick D st = \<lparr> currentTime = D, isPlaying = True \<rparr>
         \<and> clockTick D (clockTick D st) = \<lparr> currentTime = 0, isPlaying = False \<rparr>)"
  by (auto simp: tick_def clockTick_def)

theorem tick_boundary_witness:
  "tick 15 \<lparr> currentTime = 15, isPlaying = True \<rparr> = \<lparr> currentTime = 0, isPlaying = False \<rparr>
   \<and> tick 15 \<lparr> currentTime = 3, isPlaying = True \<rparr>
        = \<lparr> currentTime = 181 / 60, isPlaying = True \<rparr>
   \<and> clockTick 15 \<lparr> currentTime = 15 - 1 / 60, isPlaying = True \<rparr>
        = \<lparr> currentTime = 15, isPlaying = True \<rparr>
   \<and> clockTick 15 (clockTick 15 \<lparr> currentTime = 15 - 1 / 60, isPlaying = True \<rparr>)
        = \<lparr> currentTime = 0, isPlaying = False \<rparr>"
  using tick_boundary [where D = 15 and st = "\<lparr> currentTime = 15, isPlaying = True \<rparr>"]
    tick_boundary [where D = 15 and st = "\<lparr> currentTime = 3, isPlaying = True \<rparr>"]
    tick_boundary [where D = 15 and st = "\<lparr> currentTime = 15 - 1 / 60, isPlaying = True \<rparr>"]
  by (simp add: clockTick_def)






section \<open>Timeline mutations\<close>

lemma sorted_sortByStartTime: "sorted (map startTime (sortByStartTime xs))"
  by (simp add: sortByStartTime_def)

lemma sortByStartTime_sorted_id:
  "sorted (map startTime xs) \<Longrightarrow> sortByStartTime xs = xs"
  by (simp add: sortByStartTime_def sort_key_id_if_sorted)

lemma mset_sortByStartTime: "mset (sortByStartTime xs) = mset xs"
  by (simp add: sortByStartTime_def)

lemma dropFound_timeline:
  "timelineAssets (snd (dropFound loadMedia uuid dropTime assetId a st)) = timelineAssets st
   \<or> (\<exists>d. timelineAssets (snd (dropFound loadMedia uuid dropTime assetId a st))
          = placeOnTimeline (newTimelineAsset a uuid dropTime d) (timelineAssets st))"
  by (auto simp: dropFound_def Let_def split: option.splits Promise.splits)

lemma dropTry_timeline:
  "timelineAssets (snd (dropTry JSON_parse loadMedia uuid data dropTime st)) = timelineAssets st
   \<or> (\<exists>a d. timelineAssets (snd (dropTry JSON_parse loadMedia uuid data dropTime st))
          = placeOnTimeline (newTimelineAsset a uuid dropTime d) (timelineAssets st))"
proof (cases "JSON_parse data")
  case (Inl e)
  then show ?thesis by (simp add: dropTry_def)
next
  case (Inr v)
  show ?thesis
  proof (cases "v \<noteq> JNull \<and> getProp v ''type'' = Some (JString ''libraryAsset'')")
    case False
    with Inr show ?thesis by (auto simp: dropTry_def Let_def)
  next
    case True
    show ?thesis
    proof (cases "find (idIs (getProp v ''assetId'')) (libraryAssets st)")
      case None
      with Inr True show ?thesis by (simp add: dropTry_def Let_def)
    next
      case (Some a)
      with Inr True have
        "dropTry JSON_parse loadMedia uuid data dropTime st
           = dropFound loadMedia uuid dropTime (getProp v ''assetId'') a st"
        by (simp add: dropTry_def Let_def)
      then show ?thesis
        using dropFound_timeline [of loadMedia uuid dropTime "getProp v ''assetId''" a st]
        by auto
    qed
  qed
qed

lemma handleDrop_timeline_eq:
  "timelineAssets (snd (handleDropOnTimeline JSON_parse loadMedia uuid data dropTime st))
     = timelineAssets (snd (dropTry JSON_parse loadMedia uuid data dropTime st))"
  by (cases "dropTry JSON_parse loadMedia uuid data dropTime st")
     (auto simp: handleDropOnTimeline_def split: Outcome.splits)

text \<open>
  Claim C4. If the clip collection is sorted by \<open>startTime\<close>, it is sorted again after a
  place (the updater alone, and the whole drop handler on any payload), after an update
  and after a remove.
\<close>

theorem mutations_keep_sorted:
  assumes "sorted (map startTime prev)"
  shows "sorted (map startTime (placeOnTimeline newAsset prev))
     \<and> sorted (map startTime (handleUpdateTimelineAsset tid updates prev))
     \<and> sorted (map startTime (handleRemoveFromTimeline tid prev))
     \<and> (timelineAssets st = prev \<longrightarrow>
          sorted (map startTime
            (timelineAssets
               (snd (handleDropOnTimeline JSON_parse loadMedia uuid data dropTime st)))))"
proof -
  have p: "sorted (map startTime (placeOnTimeline newAsset prev))"
    by (simp add: placeOnTimeline_def sorted_sortByStartTime)
  have u: "sorted (map startTime (handleUpdateTimelineAsset tid updates prev))"
    by (simp add: handleUpdateTimelineAsset_def sorted_sortByStartTime)
  have r: "sorted (map startTime (handleRemoveFromTimeline tid prev))"
    using assms by (simp add: handleRemoveFromTimeline_def sorted_filter)
  have d: "sorted (map startTime
            (timelineAssets
               (snd (handleDropOnTimeline JSON_parse loadMedia uuid data dropTime st))))"
    if "timelineAssets st = prev"
    using dropTry_timeline [of JSON_parse loadMedia uuid data dropTime st] assms that
    by (auto simp: handleDrop_timeline_eq placeOnTimeline_def sorted_sortByStartTime)
  from p u r d show ?thesis by blast
qed

theorem mutations_keep_sorted_witness:
  "sorted (map startTime [sampleClip ''t1'' 0 5 0 0, sampleClip ''t2'' 5 5 0 0])
   \<and> timelineAssets (sampleState [sampleAsset ''a1'' Video (Some 10)]
                       [sampleClip ''t1'' 0 5 0 0, sampleClip ''t2'' 5 5 0 0])
       = [sampleClip ''t1'' 0 5 0 0, sampleClip ''t2'' 5 5 0 0]
   \<and> sorted (map startTime
        (placeOnTimeline (sampleClip ''t3'' 2 4 0 0)
           [sampleClip ''t1'' 0 5 0 0, sampleClip ''t2'' 5 5 0 0]))
   \<and> sorted (map startTime
        (handleUpdateTimelineAsset ''t1'' (noUpdates \<lparr> u_startTime := Some 7 \<rparr>)
           [sampleClip ''t1'' 0 5 0 0, sampleClip ''t2'' 5 5 0 0]))
   \<and> sorted (map startTime
        (handleRemoveFromTimeline ''t1'' [sampleClip ''t1'' 0 5 0 0, sampleClip ''t2'' 5 5 0 0]))
   \<and> sorted (map startTime
        (timelineAssets (snd (handleDropOnTimeline sampleParse (\<lambda>u. LoadError) ''t9''
           libraryPayload 4
           (sampleState [sampleAsset ''a1'' Video (Some 10)]
              [sampleClip ''t1'' 0 5 0 0, sampleClip ''t2'' 5 5 0 0])))))
   \<and> timelineAssets (snd (handleDropOnTimeline sampleParse (\<lambda>u. LoadError) ''t9''
           libraryPayload 4
           (sampleState [sampleAsset ''a1'' Video (Some 10)]
              [sampleClip ''t1'' 0 5 0 0, sampleClip ''t2'' 5 5 0 0])))
       = [sampleClip ''t1'' 0 5 0 0, sampleClip ''t9'' 4 10 0 0, sampleClip ''t2'' 5 5 0 0]"
proof -
  have s: "sorted (map startTime [sampleClip ''t1'' 0 5 0 0, sampleClip ''t2'' 5 5 0 0])"
    by (simp add: sampleClip_def)
  have placed: "timelineAssets (snd (handleDropOnTimeline sampleParse (\<lambda>u. LoadError) ''t9''
           libraryPayload 4
           (sampleState [sampleAsset ''a1'' Video (Some 10)]
              [sampleClip ''t1'' 0 5 0 0, sampleClip ''t2'' 5 5 0 0])))
       = [sampleClip ''t1'' 0 5 0 0, sampleClip ''t9'' 4 10 0 0, sampleClip ''t2'' 5 5 0 0]"
    by (simp add: handleDropOnTimeline_def dropTry_def sampleParse_def libraryPayload_def
        timelinePayload_def Let_def sampleState_def idIs_def sampleAsset_def dropFound_def
        placeOnTimeline_def sortByStartTime_def newTimelineAsset_def sampleClip_def)
  have st: "timelineAssets (sampleState [sampleAsset ''a1'' Video (Some 10)]
                       [sampleClip ''t1'' 0 5 0 0, sampleClip ''t2'' 5 5 0 0])
       = [sampleClip ''t1'' 0 5 0 0, sampleClip ''t2'' 5 5 0 0]"
    by (simp add: sampleState_def)
  from mutations_keep_sorted [OF s, of "sampleClip ''t3'' 2 4 0 0" "''t1''"
      "noUpdates \<lparr> u_startTime := Some 7 \<rparr>"
      "sampleState [sampleAsset ''a1'' Video (Some 10)]
         [sampleClip ''t1'' 0 5 0 0, sampleClip ''t2'' 5 5 0 0]"
      sampleParse "\<lambda>u. LoadError" "''t9''" libraryPayload 4] s st placed
  show ?thesis by simp
qed

text \<open>
  Claim C10. After \<open>update(timelineId, updates)\<close> the collection holds, as a multiset,
  exactly the clips with a different \<open>timelineId\<close>, each with all its fields as before,
  together with the merged versions of the clips with that \<open>timelineId\<close>: the other
  clips are at most re-ordered by the sort, and each of them is still in the collection. If no clip has that \<open>timelineId\<close> and the
  collection was sorted, the collection is the same list as before.
\<close>

theorem update_frame:
  "mset (handleUpdateTimelineAsset tid updates prev)
     = mset (filter (\<lambda>a. timelineId a \<noteq> tid) prev)
       + mset (map (\<lambda>a. mergeUpdates a updates) (filter (\<lambda>a. timelineId a = tid) prev))
   \<and> (\<forall>c \<in> set prev. timelineId c \<noteq> tid
        \<longrightarrow> c \<in> set (handleUpdateTimelineAsset tid updates prev))
   \<and> (sorted (map startTime prev) \<and> tid \<notin> timelineId ` set prev
        \<longrightarrow> handleUpdateTimelineAsset tid updates prev = prev)"
proof -
  let ?g = "\<lambda>asset. if timelineId asset = tid then mergeUpdates asset updates else asset"
  have "mset (map ?g xs)
      = mset (filter (\<lambda>a. timelineId a \<noteq> tid) xs)
        + mset (map (\<lambda>a. mergeUpdates a updates) (filter (\<lambda>a. timelineId a = tid) xs))" for xs
    by (induction xs) simp_all
  then have a: "mset (handleUpdateTimelineAsset tid updates prev)
     = mset (filter (\<lambda>a. timelineId a \<noteq> tid) prev)
       + mset (map (\<lambda>a. mergeUpdates a updates) (filter (\<lambda>a. timelineId a = tid) prev))"
    by (simp only: handleUpdateTimelineAsset_def mset_sortByStartTime)
  have b: "handleUpdateTimelineAsset tid updates prev = prev"
    if s: "sorted (map startTime prev)" and n: "tid \<notin> timelineId ` set prev"
  proof -
    from n have "map ?g prev = prev" by (induction prev) auto
    then show ?thesis
      using s by (simp add: handleUpdateTimelineAsset_def sortByStartTime_sorted_id)
  qed
  have c: "\<forall>c \<in> set prev. timelineId c \<noteq> tid
        \<longrightarrow> c \<in> set (handleUpdateTimelineAsset tid updates prev)"
  proof (intro ballI impI)
    fix c assume "c \<in> set prev" "timelineId c \<noteq> tid"
    then have "c \<in># mset (filter (\<lambda>a. timelineId a \<noteq> tid) prev)" by simp
    then have "c \<in># mset (handleUpdateTimelineAsset tid updates prev)"
      by (simp only: a union_iff) simp
    then show "c \<in> set (handleUpdateTimelineAsset tid updates prev)" by simp
  qed
  from a b c show ?thesis by blast
qed

theorem update_frame_witness:
  "sorted (map startTime [sampleClip ''t1'' 0 5 0 0, sampleClip ''t2'' 5 5 0 0])
   \<and> ''t7'' \<notin> timelineId ` set [sampleClip ''t1'' 0 5 0 0, sampleClip ''t2'' 5 5 0 0]
   \<and> handleUpdateTimelineAsset ''t7'' (noUpdates \<lparr> u_startTime := Some 9 \<rparr>)
        [sampleClip ''t1'' 0 5 0 0, sampleClip ''t2'' 5 5 0 0]
      = [sampleClip ''t1'' 0 5 0 0, sampleClip ''t2'' 5 5 0 0]
   \<and> sampleClip ''t2'' 5 5 0 0 \<in> set [sampleClip ''t1'' 0 5 0 0, sampleClip ''t2'' 5 5 0 0]
   \<and> timelineId (sampleClip ''t2'' 5 5 0 0) \<noteq> ''t1''
   \<and> sampleClip ''t2'' 5 5 0 0
        \<in> set (handleUpdateTimelineAsset ''t1'' (noUpdates \<lparr> u_startTime := Some 9 \<rparr>)
                 [sampleClip ''t1'' 0 5 0 0, sampleClip ''t2'' 5 5 0 0])
   \<and> handleUpdateTimelineAsset ''t1'' (noUpdates \<lparr> u_startTime := Some 9 \<rparr>)
        [sampleClip ''t1'' 0 5 0 0, sampleClip ''t2'' 5 5 0 0]
      = [sampleClip ''t2'' 5 5 0 0, sampleClip ''t1'' 9 5 0 0]"
proof -
  have run: "handleUpdateTimelineAsset ''t1'' (noUpdates \<lparr> u_startTime := Some 9 \<rparr>)
        [sampleClip ''t1'' 0 5 0 0, sampleClip ''t2'' 5 5 0 0]
      = [sampleClip ''t2'' 5 5 0 0, sampleClip ''t1'' 9 5 0 0]"
    by (simp add: handleUpdateTimelineAsset_def mergeUpdates_def noUpdates_def
        sortByStartTime_def sampleClip_def)
  have absent: "''t7'' \<notin> timelineId ` set [sampleClip ''t1'' 0 5 0 0, sampleClip ''t2'' 5 5 0 0]"
    by (simp add: sampleClip_def)
  have srt: "sorted (map startTime [sampleClip ''t1'' 0 5 0 0, sampleClip ''t2'' 5 5 0 0])"
    by (simp add: sampleClip_def)
  have other: "timelineId (sampleClip ''t2'' 5 5 0 0) \<noteq> ''t1''"
    by (simp add: sampleClip_def)
  from update_frame [of "''t7''" "noUpdates \<lparr> u_startTime := Some 9 \<rparr>"
      "[sampleClip ''t1'' 0 5 0 0, sampleClip ''t2'' 5 5 0 0]"]
    update_frame [of "''t1''" "noUpdates \<lparr> u_startTime := Some 9 \<rparr>"
      "[sampleClip ''t1'' 0 5 0 0, sampleClip ''t2'' 5 5 0 0]"]
    run absent srt other
  show ?thesis by simp
qed

section \<open>Trim gestures\<close>

lemma merge_left_trim:
  "mergeUpdates a (noUpdates \<lparr> u_trimStart := Some ts, u_startTime := Some s \<rparr>)
     = a \<lparr> trimStart := ts, startTime := s \<rparr>"
  by (simp add: mergeUpdates_def noUpdates_def)

lemma trimFrame_left_accepted:
  assumes "jsAdd fl (startTime c) dt \<ge> 0"
    and "jsSub fl (jsSub fl (intrinsicDuration c) (max 0 (jsAdd fl (trimStart c) dt))) (trimEnd c)
           > fl (1 / 10)"
  shows "trimFrame fl LeftSide c dt prev
            = sortByStartTime
                (map (\<lambda>a. if timelineId a = timelineId c
                          then a \<lparr> trimStart := max 0 (jsAdd fl (trimStart c) dt),
                                   startTime := jsAdd fl (startTime c) dt \<rparr>
                          else a) prev)"
  using assms
  by (simp add: trimFrame_def trimDrag_def Let_def handleUpdateTimelineAsset_def
      merge_left_trim cong: if_cong)

lemma trimFrame_left_rejected:
  assumes "\<not> (jsAdd fl (startTime c) dt \<ge> 0
     \<and> jsSub fl (jsSub fl (intrinsicDuration c) (max 0 (jsAdd fl (trimStart c) dt))) (trimEnd c)
           > fl (1 / 10))"
  shows "trimFrame fl LeftSide c dt prev = prev"
  using assms by (auto simp: trimFrame_def trimDrag_def Let_def)

lemma sampleClip_fields:
  "startTime (sampleClip tid s d ts te) = s"
  "trimStart (sampleClip tid s d ts te) = ts"
  "trimEnd (sampleClip tid s d ts te) = te"
  "intrinsicDuration (sampleClip tid s d ts te) = d"
  "timelineId (sampleClip tid s d ts te) = tid"
  by (simp_all add: sampleClip_def intrinsicDuration_def)

lemma sampleClip_retrim:
  "(sampleClip tid s d ts te) \<lparr> trimStart := ts', startTime := s' \<rparr> = sampleClip tid s' d ts' te"
  by (simp add: sampleClip_def)

text \<open>
  Claim C3. The sums, the differences and the literal 0.1 of the claim are the ones the
  code computes, each rounded by \<open>fl\<close>; the general statement holds for every
  rounding. The pointer-move handler of a left-edge drag turns the pointer delta into the
  time delta \<open>dt\<close>. A left-edge drag by \<open>dt\<close> on clip \<open>c\<close> proposes
  \<open>newTrimStart = max 0 (trimStart + dt)\<close> and \<open>newStartTime = startTime + dt\<close>. When
  \<open>newStartTime \<ge> 0\<close> and \<open>duration - newTrimStart - trimEnd > 0.1\<close> the clip named by
  \<open>c\<close>'s \<open>timelineId\<close> gets both values (and the collection is re-sorted); otherwise the
  collection is unchanged. For duration 10, no trims, start 2 and \<open>dt = 3\<close> the result is
  trim start 3, start 5, effective duration 7; a further drag by the number nearest to
  6.95, which in exact arithmetic would leave 0.05, changes nothing. The two examples hold
  for every monotone rounding that leaves the listed binary fractions as they are.
\<close>

theorem trim_left_drag:
  "handleMouseMove fl \<lparr> side = LeftSide, startX = x0 \<rparr> zoom c clientX
     = trimDrag fl LeftSide c
         (jsDiv fl (jsSub fl clientX x0) (jsMul fl PIXELS_PER_SECOND zoom))
   \<and> (jsAdd fl (startTime c) dt \<ge> 0
       \<and> jsSub fl (jsSub fl (intrinsicDuration c) (max 0 (jsAdd fl (trimStart c) dt)))
            (trimEnd c) > fl (1 / 10)
      \<longrightarrow> trimFrame fl LeftSide c dt prev
            = sortByStartTime
                (map (\<lambda>a. if timelineId a = timelineId c
                          then a \<lparr> trimStart := max 0 (jsAdd fl (trimStart c) dt),
                                   startTime := jsAdd fl (startTime c) dt \<rparr>
                          else a) prev))
   \<and> (\<not> (jsAdd fl (startTime c) dt \<ge> 0
          \<and> jsSub fl (jsSub fl (intrinsicDuration c) (max 0 (jsAdd fl (trimStart c) dt)))
               (trimEnd c) > fl (1 / 10))
      \<longrightarrow> trimFrame fl LeftSide c dt prev = prev)
   \<and> (mono fl \<and> (\<forall>x \<in> set [1, 3, 5, 7, 1 / 16, 111 / 16, 159 / 16]. fl x = x)
      \<longrightarrow> trimFrame fl LeftSide (sampleClip ''t1'' 2 10 0 0) 3 [sampleClip ''t1'' 2 10 0 0]
            = [sampleClip ''t1'' 5 10 3 0]
          \<and> roundedEffectiveDuration fl (sampleClip ''t1'' 5 10 3 0) = 7
          \<and> effectiveDuration (sampleClip ''t1'' (5 + 139 / 20) 10 (3 + 139 / 20) 0) = 1 / 20
          \<and> trimFrame fl LeftSide (sampleClip ''t1'' 5 10 3 0) (fl (139 / 20))
               [sampleClip ''t1'' 5 10 3 0]
            = [sampleClip ''t1'' 5 10 3 0])"
proof -
  have hm: "handleMouseMove fl \<lparr> side = LeftSide, startX = x0 \<rparr> zoom c clientX
     = trimDrag fl LeftSide c
         (jsDiv fl (jsSub fl clientX x0) (jsMul fl PIXELS_PER_SECOND zoom))"
    by (simp add: handleMouseMove_def Let_def)
  have acc: "trimFrame fl LeftSide c dt prev
            = sortByStartTime
                (map (\<lambda>a. if timelineId a = timelineId c
                          then a \<lparr> trimStart := max 0 (jsAdd fl (trimStart c) dt),
                                   startTime := jsAdd fl (startTime c) dt \<rparr>
                          else a) prev)"
    if "jsAdd fl (startTime c) dt \<ge> 0
       \<and> jsSub fl (jsSub fl (intrinsicDuration c) (max 0 (jsAdd fl (trimStart c) dt)))
            (trimEnd c) > fl (1 / 10)"
    using that by (intro trimFrame_left_accepted) simp_all
  have rej: "trimFrame fl LeftSide c dt prev = prev"
    if "\<not> (jsAdd fl (startTime c) dt \<ge> 0
          \<and> jsSub fl (jsSub fl (intrinsicDuration c) (max 0 (jsAdd fl (trimStart c) dt)))
               (trimEnd c) > fl (1 / 10))"
    using that by (rule trimFrame_left_rejected)
  have scen: "trimFrame fl LeftSide (sampleClip ''t1'' 2 10 0 0) 3 [sampleClip ''t1'' 2 10 0 0]
            = [sampleClip ''t1'' 5 10 3 0]
          \<and> roundedEffectiveDuration fl (sampleClip ''t1'' 5 10 3 0) = 7
          \<and> effectiveDuration (sampleClip ''t1'' (5 + 139 / 20) 10 (3 + 139 / 20) 0) = 1 / 20
          \<and> trimFrame fl LeftSide (sampleClip ''t1'' 5 10 3 0) (fl (139 / 20))
               [sampleClip ''t1'' 5 10 3 0]
            = [sampleClip ''t1'' 5 10 3 0]"
    if h: "mono fl \<and> (\<forall>x \<in> set [1, 3, 5, 7, 1 / 16, 111 / 16, 159 / 16]. fl x = x)"
  proof -
    from h have m: "\<And>x y. x \<le> y \<Longrightarrow> fl x \<le> fl y" by (simp add: mono_def)
    from h have ex: "fl 1 = 1" "fl 3 = 3" "fl 5 = 5" "fl 7 = 7" "fl (1 / 16) = 1 / 16"
      "fl (111 / 16) = 111 / 16" "fl (159 / 16) = 159 / 16" by simp_all
    have tenth_le: "fl (1 / 10) \<le> 1" using m [of "1 / 10" 1] ex by simp
    have tenth_ge: "1 / 16 \<le> fl (1 / 10)" using m [of "1 / 16" "1 / 10"] ex by simp
    have a1: "jsAdd fl (startTime (sampleClip ''t1'' 2 10 0 0)) 3 = 5"
      by (simp add: jsAdd_def sampleClip_fields ex)
    have a2: "max 0 (jsAdd fl (trimStart (sampleClip ''t1'' 2 10 0 0)) 3) = 3"
      by (simp add: jsAdd_def sampleClip_fields ex)
    have a3: "jsSub fl (jsSub fl (intrinsicDuration (sampleClip ''t1'' 2 10 0 0)) 3)
                (trimEnd (sampleClip ''t1'' 2 10 0 0)) = 7"
      by (simp add: jsSub_def sampleClip_fields ex)
    have s1: "trimFrame fl LeftSide (sampleClip ''t1'' 2 10 0 0) 3 [sampleClip ''t1'' 2 10 0 0]
            = [sampleClip ''t1'' 5 10 3 0]"
    proof -
      have "trimFrame fl LeftSide (sampleClip ''t1'' 2 10 0 0) 3 [sampleClip ''t1'' 2 10 0 0]
          = sortByStartTime
              (map (\<lambda>a. if timelineId a = timelineId (sampleClip ''t1'' 2 10 0 0)
                        then a \<lparr> trimStart :=
                                   max 0 (jsAdd fl (trimStart (sampleClip ''t1'' 2 10 0 0)) 3),
                                 startTime := jsAdd fl (startTime (sampleClip ''t1'' 2 10 0 0)) 3 \<rparr>
                        else a) [sampleClip ''t1'' 2 10 0 0])"
        using tenth_le by (intro trimFrame_left_accepted) (simp_all add: a1 a2 a3)
      then show ?thesis
        by (simp add: a1 a2 sampleClip_retrim sortByStartTime_def)
    qed
    have s2: "roundedEffectiveDuration fl (sampleClip ''t1'' 5 10 3 0) = 7"
      by (simp add: roundedEffectiveDuration_def jsSub_def sampleClip_fields ex)
    have s3: "effectiveDuration (sampleClip ''t1'' (5 + 139 / 20) 10 (3 + 139 / 20) 0) = 1 / 20"
      by (simp add: effectiveDuration_def sampleClip_fields)
    have d1: "111 / 16 \<le> fl (139 / 20)" using m [of "111 / 16" "139 / 20"] ex by simp
    have n1: "159 / 16 \<le> fl (3 + fl (139 / 20))"
      using m [of "159 / 16" "3 + fl (139 / 20)"] d1 ex by simp
    then have n2: "max 0 (fl (3 + fl (139 / 20))) = fl (3 + fl (139 / 20))" by simp
    have r1: "fl (10 - fl (3 + fl (139 / 20))) \<le> 1 / 16"
      using m [of "10 - fl (3 + fl (139 / 20))" "1 / 16"] n1 ex by simp
    have r2: "fl (fl (10 - fl (3 + fl (139 / 20))) - 0) \<le> 1 / 16"
      using m [of "fl (10 - fl (3 + fl (139 / 20)))" "1 / 16"] r1 ex by simp
    have notacc: "\<not> (jsAdd fl (startTime (sampleClip ''t1'' 5 10 3 0)) (fl (139 / 20)) \<ge> 0
          \<and> jsSub fl (jsSub fl (intrinsicDuration (sampleClip ''t1'' 5 10 3 0))
                 (max 0 (jsAdd fl (trimStart (sampleClip ''t1'' 5 10 3 0)) (fl (139 / 20)))))
               (trimEnd (sampleClip ''t1'' 5 10 3 0)) > fl (1 / 10))"
      using r2 tenth_ge by (simp add: jsAdd_def jsSub_def sampleClip_fields n2)
    have s4: "trimFrame fl LeftSide (sampleClip ''t1'' 5 10 3 0) (fl (139 / 20))
               [sampleClip ''t1'' 5 10 3 0]
            = [sampleClip ''t1'' 5 10 3 0]"
      using notacc by (rule trimFrame_left_rejected)
    from s1 s2 s3 s4 show ?thesis by blast
  qed
  from hm acc rej scen show ?thesis by blast
qed

text \<open>
  The witness runs two roundings. With the binary64 rounding of the examples, a clip of
  duration 1.5 whose trim start is the value for 0.4 is dragged by 1: the new trim start
  is the value for 1.4, the remaining duration 1.5 minus that value is above the value
  for 0.1, and the drag is applied. A drag by -3 on a clip starting at 2 is refused. With
  the identity the example of the claim is computed.
\<close>

theorem trim_left_drag_witness:
  "jsAdd sampleRound (startTime (sampleClip ''t1'' 2 (3 / 2) double_0_4 0)) 1 \<ge> 0
   \<and> max 0 (jsAdd sampleRound (trimStart (sampleClip ''t1'' 2 (3 / 2) double_0_4 0)) 1)
       = double_1_4
   \<and> jsSub sampleRound
        (jsSub sampleRound (intrinsicDuration (sampleClip ''t1'' 2 (3 / 2) double_0_4 0))
           double_1_4)
        (trimEnd (sampleClip ''t1'' 2 (3 / 2) double_0_4 0)) > sampleRound (1 / 10)
   \<and> trimFrame sampleRound LeftSide (sampleClip ''t1'' 2 (3 / 2) double_0_4 0) 1
        [sampleClip ''t1'' 2 (3 / 2) double_0_4 0, sampleClip ''t2'' (5 / 2) 3 0 0]
      = [sampleClip ''t2'' (5 / 2) 3 0 0, sampleClip ''t1'' 3 (3 / 2) double_1_4 0]
   \<and> \<not> (jsAdd sampleRound (startTime (sampleClip ''t1'' 2 10 0 0)) (- 3) \<ge> 0)
   \<and> trimFrame sampleRound LeftSide (sampleClip ''t1'' 2 10 0 0) (- 3)
        [sampleClip ''t1'' 2 10 0 0, sampleClip ''t2'' 4 3 0 0]
      = [sampleClip ''t1'' 2 10 0 0, sampleClip ''t2'' 4 3 0 0]
   \<and> mono (id :: real \<Rightarrow> real)
   \<and> id (1::real) = 1 \<and> id (3::real) = 3 \<and> id (5::real) = 5 \<and> id (7::real) = 7
   \<and> id (1 / 16 :: real) = 1 / 16 \<and> id (111 / 16 :: real) = 111 / 16
   \<and> id (159 / 16 :: real) = 159 / 16
   \<and> trimFrame id LeftSide (sampleClip ''t1'' 2 10 0 0) 3 [sampleClip ''t1'' 2 10 0 0]
      = [sampleClip ''t1'' 5 10 3 0]
   \<and> trimFrame id LeftSide (sampleClip ''t1'' 5 10 3 0) (id (139 / 20))
        [sampleClip ''t1'' 5 10 3 0]
      = [sampleClip ''t1'' 5 10 3 0]"
proof -
  have a1: "jsAdd sampleRound (startTime (sampleClip ''t1'' 2 (3 / 2) double_0_4 0)) 1 = 3"
    by (simp add: jsAdd_def sampleClip_fields sampleRound_def double_0_1_def double_14_9_def
        double_0_4_def)
  have a2: "max 0 (jsAdd sampleRound (trimStart (sampleClip ''t1'' 2 (3 / 2) double_0_4 0)) 1)
       = double_1_4"
    by (simp add: jsAdd_def sampleClip_fields sampleRound_def double_0_1_def double_14_9_def
        double_0_4_def double_1_4_def)
  have a3: "jsSub sampleRound
        (jsSub sampleRound (intrinsicDuration (sampleClip ''t1'' 2 (3 / 2) double_0_4 0))
           double_1_4)
        (trimEnd (sampleClip ''t1'' 2 (3 / 2) double_0_4 0))
      = 225179981368525 / 2251799813685248"
    by (simp add: jsSub_def sampleClip_fields sampleRound_def double_0_1_def double_14_9_def
        double_0_4_def double_1_4_def)
  have a4: "sampleRound (1 / 10) = double_0_1"
    by (simp add: sampleRound_def double_0_1_def double_14_9_def double_0_4_def)
  have a5: "(225179981368525 / 2251799813685248 :: real) > double_0_1"
    by (simp add: double_0_1_def)
  have b1: "jsAdd sampleRound (startTime (sampleClip ''t1'' 2 10 0 0)) (- 3) = - 1"
    by (simp add: jsAdd_def sampleClip_fields sampleRound_def double_0_1_def double_14_9_def
        double_0_4_def)
  have m: "mono (id :: real \<Rightarrow> real)" by (simp add: mono_def)
  have tl: "timelineId (sampleClip ''t2'' (5 / 2) 3 0 0) \<noteq> ''t1''"
    "startTime (sampleClip ''t2'' (5 / 2) 3 0 0) = 5 / 2"
    "startTime (sampleClip ''t1'' 3 (3 / 2) double_1_4 0) = 3"
    by (simp_all add: sampleClip_fields)
  from trim_left_drag [where fl = sampleRound and c = "sampleClip ''t1'' 2 (3 / 2) double_0_4 0"
      and dt = 1
      and prev = "[sampleClip ''t1'' 2 (3 / 2) double_0_4 0, sampleClip ''t2'' (5 / 2) 3 0 0]"]
    trim_left_drag [where fl = sampleRound and c = "sampleClip ''t1'' 2 10 0 0" and dt = "- 3"
      and prev = "[sampleClip ''t1'' 2 10 0 0, sampleClip ''t2'' 4 3 0 0]"]
    trim_left_drag [where fl = id]
    a1 a2 a3 a4 a5 b1 m tl
  show ?thesis
    by (simp add: sampleClip_fields sampleClip_retrim sortByStartTime_def)
qed

section \<open>Drop handler\<close>

lemma find_idIs_None:
  assumes "\<not> list_ex (\<lambda>a. assetId = Some (JString (id' a))) library"
  shows "find (idIs assetId) library = None"
  using assms by (induction library) (auto simp: idIs_def)

text \<open>
  Claim C7. When the payload does not parse, or parses to a value that does not describe
  a library asset of the current library, the drop handler leaves the clip collection as
  it was and returns normally: no exception leaves it. The text \<open>not json\<close> is such a
  payload.
\<close>

theorem malformed_drop_ignored:
  assumes "JSON_parse data = Inl e
     \<or> (\<exists>v. JSON_parse data = Inr v \<and> \<not> describesKnownLibraryAsset v (libraryAssets st))"
  shows "timelineAssets (snd (handleDropOnTimeline JSON_parse loadMedia uuid data dropTime st))
       = timelineAssets st
     \<and> fst (handleDropOnTimeline JSON_parse loadMedia uuid data dropTime st) = Returned"
  using assms
proof
  assume "JSON_parse data = Inl e"
  then show ?thesis by (simp add: handleDropOnTimeline_def dropTry_def)
next
  assume "\<exists>v. JSON_parse data = Inr v \<and> \<not> describesKnownLibraryAsset v (libraryAssets st)"
  then obtain v where v: "JSON_parse data = Inr v"
    and n: "\<not> describesKnownLibraryAsset v (libraryAssets st)" by blast
  show ?thesis
  proof (cases "v = JNull")
    case True
    with v show ?thesis by (simp add: handleDropOnTimeline_def dropTry_def)
  next
    case False
    show ?thesis
    proof (cases "getProp v ''type'' = Some (JString ''libraryAsset'')")
      case False
      with v \<open>v \<noteq> JNull\<close> show ?thesis
        by (simp add: handleDropOnTimeline_def dropTry_def Let_def)
    next
      case True
      with n have
        "\<not> list_ex (\<lambda>a. getProp v ''assetId'' = Some (JString (id' a))) (libraryAssets st)"
        by (simp add: describesKnownLibraryAsset_def)
      then have "find (idIs (getProp v ''assetId'')) (libraryAssets st) = None"
        by (rule find_idIs_None)
      with v True \<open>v \<noteq> JNull\<close> show ?thesis
        by (simp add: handleDropOnTimeline_def dropTry_def Let_def)
    qed
  qed
qed

theorem malformed_drop_ignored_witness:
  "sampleParse ''not json'' = Inl SyntaxError
   \<and> timelineAssets (snd (handleDropOnTimeline sampleParse (\<lambda>u. LoadError) ''t9'' ''not json'' 4
         (sampleState [sampleAsset ''a1'' Video (Some 10)] [sampleClip ''t1'' 0 5 0 0])))
       = [sampleClip ''t1'' 0 5 0 0]
   \<and> fst (handleDropOnTimeline sampleParse (\<lambda>u. LoadError) ''t9'' ''not json'' 4
         (sampleState [sampleAsset ''a1'' Video (Some 10)] [sampleClip ''t1'' 0 5 0 0]))
       = Returned
   \<and> (\<exists>v. sampleParse libraryPayload = Inr v
          \<and> \<not> describesKnownLibraryAsset v
                (libraryAssets (sampleState [sampleAsset ''a2'' Video (Some 10)]
                   [sampleClip ''t1'' 0 5 0 0])))
   \<and> timelineAssets (snd (handleDropOnTimeline sampleParse (\<lambda>u. LoadError) ''t9''
         libraryPayload 4
         (sampleState [sampleAsset ''a2'' Video (Some 10)] [sampleClip ''t1'' 0 5 0 0])))
       = [sampleClip ''t1'' 0 5 0 0]"
proof -
  have h: "sampleParse ''not json'' = Inl SyntaxError"
    by (simp add: sampleParse_def libraryPayload_def timelinePayload_def)
  have k: "\<exists>v. sampleParse libraryPayload = Inr v
          \<and> \<not> describesKnownLibraryAsset v
                (libraryAssets (sampleState [sampleAsset ''a2'' Video (Some 10)]
                   [sampleClip ''t1'' 0 5 0 0]))"
    by (simp add: sampleParse_def describesKnownLibraryAsset_def sampleState_def
        sampleAsset_def)
  from malformed_drop_ignored [of sampleParse "''not json''" SyntaxError
      "sampleState [sampleAsset ''a1'' Video (Some 10)] [sampleClip ''t1'' 0 5 0 0]"
      "\<lambda>u. LoadError" "''t9''" 4]
    malformed_drop_ignored [of sampleParse libraryPayload SyntaxError
      "sampleState [sampleAsset ''a2'' Video (Some 10)] [sampleClip ''t1'' 0 5 0 0]"
      "\<lambda>u. LoadError" "''t9''" 4] h k
  show ?thesis by (simp add: sampleState_def)
qed

text \<open>
  Claim C8 as stated fails in its second half. The payload names the library asset
  \<open>a1\<close>, a video without a duration, and the metadata fails to load, so the duration
  promise rejects. The handler returns normally: no error reaches its caller.
\<close>

theorem failed_duration_counterexample:
  "getMediaDuration failingLoad (url (sampleAsset ''a1'' Video None))
       (type (sampleAsset ''a1'' Video None))
     = Rejected (Error ''Failed to load media metadata for blob:a1'')
   \<and> fst (handleDropOnTimeline sampleParse failingLoad ''t9'' libraryPayload 4
            (sampleState [sampleAsset ''a1'' Video None] [sampleClip ''t1'' 0 5 0 0]))
       = Returned
   \<and> fst (handleDropOnTimeline sampleParse failingLoad ''t9'' libraryPayload 4
            (sampleState [sampleAsset ''a1'' Video None] [sampleClip ''t1'' 0 5 0 0]))
       \<noteq> Escaped (Error ''Failed to load media metadata for blob:a1'')"
  by (simp add: handleDropOnTimeline_def dropTry_def sampleParse_def Let_def sampleState_def
      idIs_def sampleAsset_def dropFound_def getMediaDuration_def failingLoad_def)

text \<open>
  Claim C8, amended. When the payload names a library asset whose duration is undefined
  and the duration cannot be resolved, no clip is created and the clip collection is as
  before. The failure is caught inside the drop handler and written to the error console,
  and the handler returns normally to its caller. When the metadata promise rejects, the
  state is otherwise unchanged and the logged error is the rejection reason; when it
  resolves to \<open>undefined\<close>, the library entry is rewritten with the undefined duration
  and the logged error is \<open>Could not determine asset duration.\<close>
\<close>

theorem failed_duration_logged:
  assumes parse: "JSON_parse data = Inr v"
    and ty: "getProp v ''type'' = Some (JString ''libraryAsset'')"
    and found: "find (idIs (getProp v ''assetId'')) (libraryAssets st) = Some a"
    and undef: "duration a = None"
  shows "(getMediaDuration loadMedia (url a) (type a) = Rejected e \<longrightarrow>
            handleDropOnTimeline JSON_parse loadMedia uuid data dropTime st
              = (Returned, st \<lparr> consoleErrors := consoleErrors st @ [e] \<rparr>))
     \<and> (getMediaDuration loadMedia (url a) (type a) = Resolved None \<longrightarrow>
            handleDropOnTimeline JSON_parse loadMedia uuid data dropTime st
              = (Returned,
                 st \<lparr> libraryAssets :=
                        map (\<lambda>x. if idIs (getProp v ''assetId'') x
                                 then x \<lparr> duration := None \<rparr> else x)
                          (libraryAssets st),
                      consoleErrors :=
                        consoleErrors st @ [Error ''Could not determine asset duration.''] \<rparr>))
     \<and> (getMediaDuration loadMedia (url a) (type a) = Rejected e
          \<or> getMediaDuration loadMedia (url a) (type a) = Resolved None \<longrightarrow>
            timelineAssets
              (snd (handleDropOnTimeline JSON_parse loadMedia uuid data dropTime st))
              = timelineAssets st
            \<and> fst (handleDropOnTimeline JSON_parse loadMedia uuid data dropTime st)
                = Returned)"
proof -
  from ty have nn: "v \<noteq> JNull" by auto
  have t: "dropTry JSON_parse loadMedia uuid data dropTime st
     = dropFound loadMedia uuid dropTime (getProp v ''assetId'') a st"
    using parse ty found nn by (simp add: dropTry_def Let_def)
  have rej: "handleDropOnTimeline JSON_parse loadMedia uuid data dropTime st
              = (Returned, st \<lparr> consoleErrors := consoleErrors st @ [e] \<rparr>)"
    if "getMediaDuration loadMedia (url a) (type a) = Rejected e"
  proof -
    from that have "dropFound loadMedia uuid dropTime (getProp v ''assetId'') a st
        = (Escaped e, st)"
      using undef by (simp add: dropFound_def)
    then show ?thesis by (simp add: handleDropOnTimeline_def t)
  qed
  have und: "handleDropOnTimeline JSON_parse loadMedia uuid data dropTime st
              = (Returned,
                 st \<lparr> libraryAssets :=
                        map (\<lambda>x. if idIs (getProp v ''assetId'') x
                                 then x \<lparr> duration := None \<rparr> else x)
                          (libraryAssets st),
                      consoleErrors :=
                        consoleErrors st @ [Error ''Could not determine asset duration.''] \<rparr>)"
    if "getMediaDuration loadMedia (url a) (type a) = Resolved None"
  proof -
    from that have "dropFound loadMedia uuid dropTime (getProp v ''assetId'') a st
      = (Escaped (Error ''Could not determine asset duration.''),
         st \<lparr> libraryAssets :=
                map (\<lambda>x. if idIs (getProp v ''assetId'') x then x \<lparr> duration := None \<rparr> else x)
                  (libraryAssets st) \<rparr>)"
      using undef by (simp add: dropFound_def Let_def)
    then show ?thesis by (simp add: handleDropOnTimeline_def t)
  qed
  have both: "timelineAssets
              (snd (handleDropOnTimeline JSON_parse loadMedia uuid data dropTime st))
              = timelineAssets st
            \<and> fst (handleDropOnTimeline JSON_parse loadMedia uuid data dropTime st)
                = Returned"
    if "getMediaDuration loadMedia (url a) (type a) = Rejected e
          \<or> getMediaDuration loadMedia (url a) (type a) = Resolved None"
    using that rej und by auto
  from rej und both show ?thesis by blast
qed

theorem failed_duration_logged_witness:
  "sampleParse libraryPayload
     = Inr (JObject [(''type'', JString ''libraryAsset''), (''assetId'', JString ''a1'')])
   \<and> find (idIs (Some (JString ''a1'')))
        (libraryAssets (sampleState [sampleAsset ''a1'' Video None] [sampleClip ''t1'' 0 5 0 0]))
       = Some (sampleAsset ''a1'' Video None)
   \<and> duration (sampleAsset ''a1'' Video None) = None
   \<and> getMediaDuration failingLoad (url (sampleAsset ''a1'' Video None))
        (type (sampleAsset ''a1'' Video None))
       = Rejected (Error ''Failed to load media metadata for blob:a1'')
   \<and> handleDropOnTimeline sampleParse failingLoad ''t9'' libraryPayload 4
        (sampleState [sampleAsset ''a1'' Video None] [sampleClip ''t1'' 0 5 0 0])
       = (Returned,
          \<lparr> libraryAssets = [sampleAsset ''a1'' Video None],
            timelineAssets = [sampleClip ''t1'' 0 5 0 0],
            consoleErrors = [Error ''Failed to load media metadata for blob:a1''] \<rparr>)"
proof -
  let ?v = "JObject [(''type'', JString ''libraryAsset''), (''assetId'', JString ''a1'')]"
  let ?st = "sampleState [sampleAsset ''a1'' Video None] [sampleClip ''t1'' 0 5 0 0]"
  let ?a = "sampleAsset ''a1'' Video None"
  have p: "sampleParse libraryPayload = Inr ?v"
    by (simp add: sampleParse_def)
  have ty: "getProp ?v ''type'' = Some (JString ''libraryAsset'')"
    by simp
  have f: "find (idIs (getProp ?v ''assetId'')) (libraryAssets ?st) = Some ?a"
    by (simp add: sampleState_def idIs_def sampleAsset_def)
  have u: "duration ?a = None"
    by (simp add: sampleAsset_def)
  have r: "getMediaDuration failingLoad (url ?a) (type ?a)
       = Rejected (Error ''Failed to load media metadata for blob:a1'')"
    by (simp add: getMediaDuration_def sampleAsset_def failingLoad_def)
  from failed_duration_logged
      [where JSON_parse = sampleParse and data = libraryPayload and v = ?v and st = ?st
         and a = ?a and loadMedia = failingLoad and uuid = "''t9''" and dropTime = 4
         and e = "Error ''Failed to load media metadata for blob:a1''",
       OF p ty f u]
    p f u r
  show ?thesis by (simp add: sampleState_def)
qed

text \<open>
  Claim C9 on the code. A clip at start 0 is dragged and dropped at 5 seconds: the payload
  is the one the clip's drag handler writes, of type \<open>timelineAsset\<close>. The drop handler
  returns with the state as it was; the clip still starts at 0.
\<close>

theorem reposition_drop_ignored:
  "handleDropOnTimeline sampleParse loadMedia uuid timelinePayload 5
     (sampleState [sampleAsset ''a1'' Video (Some 10)] [sampleClip ''t1'' 0 10 0 0])
   = (Returned, sampleState [sampleAsset ''a1'' Video (Some 10)] [sampleClip ''t1'' 0 10 0 0])
   \<and> map startTime
       (timelineAssets (snd (handleDropOnTimeline sampleParse loadMedia uuid timelinePayload 5
          (sampleState [sampleAsset ''a1'' Video (Some 10)] [sampleClip ''t1'' 0 10 0 0]))))
     = [0]"
  by (simp add: handleDropOnTimeline_def dropTry_def sampleParse_def libraryPayload_def
      timelinePayload_def Let_def sampleState_def sampleClip_def)

end
